theory Spec2Isabelle
  imports Main "HOL-Library.AList"
begin

section \<open>Data model (app/models.py, app/schemas.py)\<close>

text \<open>
  The three tables of \<^verbatim>\<open>app/models.py\<close> are records; the primary-key column
  \<^verbatim>\<open>id\<close> of each table is written \<open>u_id\<close>, \<open>b_id\<close>, \<open>r_id\<close>, since \<open>id\<close> is the
  identity function of HOL. A \<^verbatim>\<open>DateTime\<close> is an integer number of seconds on a fixed
  time line, so that the comparisons of the source are the order of \<open>int\<close>. The column
  \<^verbatim>\<open>status\<close> is a \<^verbatim>\<open>String\<close>, as in the source.
\<close>

type_synonym datetime = int
type_synonym timedelta = int

record User =
  u_id :: int
  email :: string
  password :: string
  is_admin :: bool

record Book =
  b_id :: int
  title :: string
  author :: string
  copies :: int

record BorrowRequest =
  r_id :: int
  user_id :: int
  book_id :: int
  start_date :: datetime
  end_date :: datetime
  status :: string

text \<open>
  The request bodies of \<^verbatim>\<open>app/schemas.py\<close>. Their fields carry a prefix, because
  a field name is one constant per theory: \<open>new_email\<close> is \<^verbatim>\<open>UserCreate.email\<close>,
  \<open>req_book_id\<close> is \<^verbatim>\<open>BorrowRequestCreate.book_id\<close>, and so on.
\<close>

record UserCreate =
  new_email :: string
  new_password :: string
  new_is_admin :: bool

record BookCreate =
  new_title :: string
  new_author :: string
  new_copies :: int

record BorrowRequestCreate =
  req_book_id :: int
  req_start_date :: datetime
  req_end_date :: datetime

text \<open>
  The state of the relational store behind the \<^verbatim>\<open>Session\<close>: the rows of each
  table, in insertion order. \<^verbatim>\<open>query(..).filter(..).first()\<close> is \<^const>\<open>find\<close> on
  the rows, \<^verbatim>\<open>.all()\<close> is \<^const>\<open>filter\<close>.
\<close>

record database =
  users :: "User list"
  books :: "Book list"
  borrow_requests :: "BorrowRequest list"

text \<open>
  Every \<^verbatim>\<open>raise\<close> of the source is a value. \<open>HTTPException code detail\<close> is the
  exception of the same name; the other constructors are the exceptions that the
  libraries raise into the handlers: the violated \<^verbatim>\<open>unique=True\<close> of
  \<^verbatim>\<open>User.email\<close> at \<^verbatim>\<open>db.commit()\<close>, the \<^verbatim>\<open>TypeError\<close> of the JSON
  encoder, the \<^verbatim>\<open>JWTError\<close> of token decoding, and whatever the password
  context raises on a digest it cannot read.
\<close>

datatype error =
    HTTPException nat string
  | IntegrityError
  | TypeError
  | JWTError
  | UnknownHashError

text \<open>
  The key of a row added by \<^verbatim>\<open>db.add\<close>, \<^verbatim>\<open>db.commit\<close>, \<^verbatim>\<open>db.refresh\<close>:
  an integer primary key is one more than the largest key in the table, and 1 in an
  empty table.
\<close>

definition fresh_id :: "int list \<Rightarrow> int" where
  "fresh_id ks = fold max ks 0 + 1"

section \<open>app/crud.py\<close>

text \<open>
  \<^verbatim>\<open>create_user(db, user, is_admin=True)\<close>: the row holds \<^verbatim>\<open>user.email\<close>,
  \<^verbatim>\<open>user.password\<close> as it was received, and the parameter \<^verbatim>\<open>is_admin\<close>; the
  field \<^verbatim>\<open>user.is_admin\<close> of the body is not read. The default value of the
  parameter is \<open>None\<close> here. The commit fails when the email is already in the table
  (\<^verbatim>\<open>unique=True\<close>), and then nothing is stored.
\<close>

definition crud_create_user ::
  "database \<Rightarrow> UserCreate \<Rightarrow> bool option \<Rightarrow> (error + User) \<times> database" where
  "crud_create_user db user is_admin_arg =
     (let db_user = \<lparr> u_id = fresh_id (map u_id (users db)),
                       email = new_email user,
                       password = new_password user,
                       is_admin = (case is_admin_arg of None \<Rightarrow> True | Some b \<Rightarrow> b) \<rparr>
      in if find (\<lambda>u. email u = new_email user) (users db) \<noteq> None
         then (Inl IntegrityError, db)
         else (Inr db_user, db\<lparr> users := users db @ [db_user] \<rparr>))"

definition crud_get_books :: "database \<Rightarrow> Book list" where
  "crud_get_books db = books db"

definition crud_get_user_borrow_history :: "database \<Rightarrow> int \<Rightarrow> BorrowRequest list" where
  "crud_get_user_borrow_history db uid =
     filter (\<lambda>r. user_id r = uid) (borrow_requests db)"

section \<open>app/routers/user.py\<close>

text \<open>
  \<^verbatim>\<open>borrow_request(request, current_user, db)\<close>. Step 1 looks the book up and
  raises 404; step 2 looks for a row of the same book with status \<^verbatim>\<open>"approved"\<close>,
  \<^verbatim>\<open>end_date > request.start_date\<close> and \<^verbatim>\<open>start_date < request.end_date\<close>, and
  raises 400 when there is one; step 3 stores and returns the new row, with status
  \<^verbatim>\<open>"pending"\<close>. The result is paired with the store after the call.
\<close>

definition borrow_request ::
  "BorrowRequestCreate \<Rightarrow> User \<Rightarrow> database \<Rightarrow> (error + BorrowRequest) \<times> database" where
  "borrow_request request current_user db =
     (case find (\<lambda>b. b_id b = req_book_id request) (books db) of
        None \<Rightarrow> (Inl (HTTPException 404 ''Book not found''), db)
      | Some book \<Rightarrow>
          (case find (\<lambda>r. book_id r = req_book_id request
                         \<and> status r = ''approved''
                         \<and> end_date r > req_start_date request
                         \<and> start_date r < req_end_date request)
                     (borrow_requests db) of
             Some overlapping_request \<Rightarrow>
               (Inl (HTTPException 400
                  ''This book is already borrowed during the requested period''), db)
           | None \<Rightarrow>
               (let new_request = \<lparr> r_id = fresh_id (map r_id (borrow_requests db)),
                                     user_id = u_id current_user,
                                     book_id = req_book_id request,
                                     start_date = req_start_date request,
                                     end_date = req_end_date request,
                                     status = ''pending'' \<rparr>
                in (Inr new_request,
                    db\<lparr> borrow_requests := borrow_requests db @ [new_request] \<rparr>))))"

definition user_get_books :: "database \<Rightarrow> Book list" where
  "user_get_books db = crud_get_books db"

definition view_borrow_history :: "database \<Rightarrow> User \<Rightarrow> BorrowRequest list" where
  "view_borrow_history db current_user =
     filter (\<lambda>r. user_id r = u_id current_user) (borrow_requests db)"

section \<open>app/auth.py\<close>

text \<open>
  The values a token payload holds before it is encoded: a string, a number, a
  \<^verbatim>\<open>datetime\<close> or a \<^verbatim>\<open>timedelta\<close>. A Python \<^verbatim>\<open>dict\<close> is an association
  list; \<^verbatim>\<open>d.update({k: v})\<close> is \<^const>\<open>AList.update\<close> and \<^verbatim>\<open>d.get(k)\<close> is
  \<^const>\<open>map_of\<close>.
\<close>

datatype pyval = PStr string | PInt int | PDateTime datetime | PTimeDelta timedelta

type_synonym pydict = "(string \<times> pyval) list"

text \<open>
  \<^verbatim>\<open>str(n)\<close> on an integer: the decimal digits, with a minus sign below zero.
\<close>

definition digit_char :: "nat \<Rightarrow> char" where
  "digit_char d = ''0123456789'' ! d"

function str_nat :: "nat \<Rightarrow> string" where
  "str_nat n = (if n < 10 then [digit_char n]
                else str_nat (n div 10) @ [digit_char (n mod 10)])"
  by pat_completeness auto
termination
  by (relation "measure (\<lambda>n. n)") auto

declare str_nat.simps [simp del]

definition str :: "int \<Rightarrow> string" where
  "str i = (if i < 0 then CHR ''-'' # str_nat (nat (- i)) else str_nat (nat i))"

text \<open>
  The password context \<^verbatim>\<open>pwd_context = CryptContext(schemes=["bcrypt"])\<close> is a
  library object; it is a parameter of the model. \<open>ctx_hash\<close> takes the salt it draws
  as an argument, \<open>ctx_verify\<close> may raise on a digest it cannot identify.
\<close>

record CryptContext =
  ctx_hash :: "string \<Rightarrow> string \<Rightarrow> string"
  ctx_verify :: "string \<Rightarrow> string \<Rightarrow> error + bool"

definition SECRET_KEY :: string where
  "SECRET_KEY = ''f7f8bc9e4b1147bfa31e7b2e9b965ba3a1c937a10f9dbfa2f925d19c04eb566b''"

definition ALGORITHM :: string where
  "ALGORITHM = ''HS256''"

definition ACCESS_TOKEN_EXPIRE_MINUTES :: int where
  "ACCESS_TOKEN_EXPIRE_MINUTES = 30"

definition minutes :: "int \<Rightarrow> timedelta" where
  "minutes m = m * 60"

definition verify_password :: "CryptContext \<Rightarrow> string \<Rightarrow> string \<Rightarrow> error + bool" where
  "verify_password pwd_context plain_password hashed_password =
     ctx_verify pwd_context plain_password hashed_password"

definition get_password_hash :: "CryptContext \<Rightarrow> string \<Rightarrow> string \<Rightarrow> string" where
  "get_password_hash pwd_context salt password_arg = ctx_hash pwd_context salt password_arg"

text \<open>
  \<^verbatim>\<open>authenticate_user(db, email, password)\<close>: \<open>None\<close> when no row has the email or
  the password does not verify against the stored field, the row otherwise. The
  \<^verbatim>\<open>or\<close> does not call \<^verbatim>\<open>verify_password\<close> when there is no row.
\<close>

definition authenticate_user ::
  "CryptContext \<Rightarrow> database \<Rightarrow> string \<Rightarrow> string \<Rightarrow> error + User option" where
  "authenticate_user pwd_context db email_arg password_arg =
     (case find (\<lambda>u. email u = email_arg) (users db) of
        None \<Rightarrow> Inr None
      | Some user \<Rightarrow>
          (case verify_password pwd_context password_arg (password user) of
             Inl e \<Rightarrow> Inl e
           | Inr ok \<Rightarrow> if \<not> ok then Inr None else Inr (Some user)))"

text \<open>
  The token library (\<^verbatim>\<open>jose.jwt\<close>) is modelled by its contract. A token string is
  either \<open>Signed key alg claims\<close>, the compact serialisation of the JSON object
  \<open>claims\<close> signed under \<open>key\<close> with \<open>alg\<close>, or \<open>Malformed s\<close>, any other string. The
  signature is ideal: a token verifies under a key only when it was signed under it.

  \<^verbatim>\<open>jwt.encode\<close> turns a \<^verbatim>\<open>datetime\<close> under \<^verbatim>\<open>exp\<close>, \<^verbatim>\<open>iat\<close> or
  \<^verbatim>\<open>nbf\<close> into its number of seconds and then serialises the claims as JSON; a value
  that JSON cannot hold (a \<^verbatim>\<open>datetime\<close> elsewhere, a \<^verbatim>\<open>timedelta\<close> anywhere) makes
  the encoder raise \<^verbatim>\<open>TypeError\<close>.

  \<^verbatim>\<open>jwt.decode\<close> raises \<^verbatim>\<open>JWTError\<close> on a string that is no token, on a wrong
  key or algorithm, on an \<^verbatim>\<open>exp\<close> that is no number and on an \<^verbatim>\<open>exp\<close> before the
  time \<open>now\<close> that the library reads when it decodes; otherwise it returns the claims.
\<close>

datatype token = Signed string string pydict | Malformed string

definition json_serializable :: "pyval \<Rightarrow> bool" where
  "json_serializable v = (case v of PStr s \<Rightarrow> True | PInt n \<Rightarrow> True
                                  | PDateTime t \<Rightarrow> False | PTimeDelta d \<Rightarrow> False)"

definition time_claim_to_int :: "string \<times> pyval \<Rightarrow> string \<times> pyval" where
  "time_claim_to_int kv =
     (case kv of (k, v) \<Rightarrow>
        (if k \<in> set [''exp'', ''iat'', ''nbf'']
         then (case v of PDateTime t \<Rightarrow> (k, PInt t) | _ \<Rightarrow> (k, v))
         else (k, v)))"

definition jwt_encode :: "pydict \<Rightarrow> string \<Rightarrow> string \<Rightarrow> error + token" where
  "jwt_encode claims key alg =
     (let claims' = map time_claim_to_int claims
      in if list_all (\<lambda>kv. json_serializable (snd kv)) claims'
         then Inr (Signed key alg claims')
         else Inl TypeError)"

definition jwt_decode :: "token \<Rightarrow> string \<Rightarrow> string list \<Rightarrow> datetime \<Rightarrow> error + pydict" where
  "jwt_decode tok key algorithms now =
     (case tok of
        Malformed s \<Rightarrow> Inl JWTError
      | Signed k alg claims \<Rightarrow>
          (if k \<noteq> key \<or> alg \<notin> set algorithms then Inl JWTError
           else (case map_of claims ''exp'' of
                   None \<Rightarrow> Inr claims
                 | Some (PInt e) \<Rightarrow> if e < now then Inl JWTError else Inr claims
                 | Some other \<Rightarrow> Inl JWTError)))"

text \<open>
  \<^verbatim>\<open>create_access_token(data, expires_delta=None)\<close>. The source line is
  \<^verbatim>\<open>expire = datetime.now() + expires_delta if expires_delta else timedelta(minutes=15)\<close>
  and a conditional expression binds weaker than \<^verbatim>\<open>+\<close>: the value is
  \<^verbatim>\<open>datetime.now() + expires_delta\<close> when \<^verbatim>\<open>expires_delta\<close> is truthy (given and
  not zero), and the bare \<^verbatim>\<open>timedelta(minutes=15)\<close> otherwise. \<open>to_encode\<close> is the
  dictionary of that name as it is handed to \<^verbatim>\<open>jwt.encode\<close>; \<open>now\<close> is the value
  of \<^verbatim>\<open>datetime.now()\<close>.
\<close>

definition to_encode :: "pydict \<Rightarrow> timedelta option \<Rightarrow> datetime \<Rightarrow> pydict" where
  "to_encode data expires_delta now =
     (let expire = (case expires_delta of
                      None \<Rightarrow> PTimeDelta (minutes 15)
                    | Some d \<Rightarrow> if d \<noteq> 0 then PDateTime (now + d)
                                else PTimeDelta (minutes 15))
      in AList.update ''exp'' expire data)"

definition create_access_token ::
  "pydict \<Rightarrow> timedelta option \<Rightarrow> datetime \<Rightarrow> error + token" where
  "create_access_token data expires_delta now =
     jwt_encode (to_encode data expires_delta now) SECRET_KEY ALGORITHM"

text \<open>
  \<^verbatim>\<open>get_current_user(token, db)\<close>: every failure is the 401
  \<^verbatim>\<open>credentials_exception\<close>. The claim \<^verbatim>\<open>sub\<close> is compared with the integer
  column \<^verbatim>\<open>User.id\<close> by the store; \<open>column_eq\<close> is that comparison: a number is
  compared as it is, a string matches the key it is the decimal form of.
\<close>

definition credentials_exception :: error where
  "credentials_exception = HTTPException 401 ''Could not validate credentials''"

definition column_eq :: "int \<Rightarrow> pyval \<Rightarrow> bool" where
  "column_eq k v = (case v of PInt n \<Rightarrow> k = n | PStr s \<Rightarrow> str k = s
                            | PDateTime t \<Rightarrow> False | PTimeDelta d \<Rightarrow> False)"

definition get_current_user :: "token \<Rightarrow> database \<Rightarrow> datetime \<Rightarrow> error + User" where
  "get_current_user tok db now =
     (case jwt_decode tok SECRET_KEY [ALGORITHM] now of
        Inl e \<Rightarrow> Inl credentials_exception
      | Inr payload \<Rightarrow>
          (case map_of payload ''sub'' of
             None \<Rightarrow> Inl credentials_exception
           | Some sub \<Rightarrow>
               (case find (\<lambda>u. column_eq (u_id u) sub) (users db) of
                  None \<Rightarrow> Inl credentials_exception
                | Some user \<Rightarrow> Inr user)))"

section \<open>app/routers/admin.py\<close>

record TokenResponse =
  access_token :: token
  token_type :: string

text \<open>
  \<^verbatim>\<open>login(email, password, db)\<close> calls \<^verbatim>\<open>create_access_token(token_data)\<close> with
  no second argument.
\<close>

definition login ::
  "CryptContext \<Rightarrow> string \<Rightarrow> string \<Rightarrow> database \<Rightarrow> datetime \<Rightarrow> error + TokenResponse" where
  "login pwd_context email_arg password_arg db now =
     (case authenticate_user pwd_context db email_arg password_arg of
        Inl e \<Rightarrow> Inl e
      | Inr None \<Rightarrow> Inl (HTTPException 401 ''Invalid credentials'')
      | Inr (Some user) \<Rightarrow>
          (let token_data = [(''sub'', PStr (str (u_id user)))]
           in case create_access_token token_data None now of
                Inl e \<Rightarrow> Inl e
              | Inr tok \<Rightarrow> Inr \<lparr> access_token = tok, token_type = ''bearer'' \<rparr>))"

text \<open>
  The privileged operations. Each takes the resolved principal \<open>current_user\<close> and
  returns its result with the store after the call.
\<close>

definition create_admin_user :: "UserCreate \<Rightarrow> database \<Rightarrow> (error + User) \<times> database" where
  "create_admin_user user db =
     (case find (\<lambda>u. is_admin u = True) (users db) of
        Some existing_admin \<Rightarrow> (Inl (HTTPException 400 ''An admin already exists.''), db)
      | None \<Rightarrow> crud_create_user db user (Some True))"

definition create_user ::
  "UserCreate \<Rightarrow> database \<Rightarrow> User \<Rightarrow> (error + User) \<times> database" where
  "create_user user db current_user =
     (if \<not> is_admin current_user then (Inl (HTTPException 403 ''Not authorized''), db)
      else crud_create_user db user None)"

definition view_borrow_requests ::
  "database \<Rightarrow> User \<Rightarrow> (error + BorrowRequest list) \<times> database" where
  "view_borrow_requests db current_user =
     (if \<not> is_admin current_user then (Inl (HTTPException 403 ''Not authorized''), db)
      else (Inr (borrow_requests db), db))"

text \<open>
  \<^verbatim>\<open>approve_request\<close> assigns \<^verbatim>\<open>"approved"\<close> to the row it found and commits:
  the row with that primary key is rewritten, every other row is kept.
\<close>

definition approve_request ::
  "int \<Rightarrow> database \<Rightarrow> User \<Rightarrow> (error + BorrowRequest) \<times> database" where
  "approve_request request_id db current_user =
     (if \<not> is_admin current_user then (Inl (HTTPException 403 ''Not authorized''), db)
      else (case find (\<lambda>r. r_id r = request_id) (borrow_requests db) of
              None \<Rightarrow> (Inl (HTTPException 404 ''Request not found''), db)
            | Some found \<Rightarrow>
                (Inr (found\<lparr> status := ''approved'' \<rparr>),
                 db\<lparr> borrow_requests :=
                       map (\<lambda>r. if r_id r = r_id found then r\<lparr> status := ''approved'' \<rparr> else r)
                           (borrow_requests db) \<rparr>)))"

definition view_user_borrow_history ::
  "int \<Rightarrow> database \<Rightarrow> User \<Rightarrow> (error + BorrowRequest list) \<times> database" where
  "view_user_borrow_history uid db current_user =
     (if \<not> is_admin current_user then (Inl (HTTPException 403 ''Not authorized''), db)
      else (let borrow_history = crud_get_user_borrow_history db uid
            in if borrow_history = []
               then (Inl (HTTPException 404 ''No borrow history found for this user''), db)
               else (Inr borrow_history, db)))"

definition add_book :: "BookCreate \<Rightarrow> database \<Rightarrow> User \<Rightarrow> (error + Book) \<times> database" where
  "add_book book db current_user =
     (if \<not> is_admin current_user then (Inl (HTTPException 403 ''Not authorized''), db)
      else (let db_book = \<lparr> b_id = fresh_id (map b_id (books db)),
                             title = new_title book,
                             author = new_author book,
                             copies = new_copies book \<rparr>
            in (Inr db_book, db\<lparr> books := books db @ [db_book] \<rparr>)))"

section \<open>Example states\<close>

text \<open>
  A store with one administrator, one reader, one book and three requests for that
  book: one approved over 10 to 20, and two pending ones, over 30 to 40 and over 15
  to 25 (the second overlaps the approved period).
\<close>

definition example_book :: Book where
  "example_book = \<lparr> b_id = 1, title = ''T'', author = ''A'', copies = 1 \<rparr>"

definition example_admin :: User where
  "example_admin = \<lparr> u_id = 1, email = ''admin@example.com'', password = ''secret'',
                     is_admin = True \<rparr>"

definition example_reader :: User where
  "example_reader = \<lparr> u_id = 2, email = ''reader@example.com'', password = ''hunter2'',
                      is_admin = False \<rparr>"

definition empty_db :: database where
  "empty_db = \<lparr> users = [], books = [], borrow_requests = [] \<rparr>"

definition example_db :: database where
  "example_db =
     \<lparr> users = [example_admin, example_reader],
       books = [example_book],
       borrow_requests =
         [\<lparr> r_id = 1, user_id = 2, book_id = 1, start_date = 10, end_date = 20,
            status = ''approved'' \<rparr>,
          \<lparr> r_id = 2, user_id = 2, book_id = 1, start_date = 30, end_date = 40,
            status = ''pending'' \<rparr>,
          \<lparr> r_id = 3, user_id = 2, book_id = 1, start_date = 15, end_date = 25,
            status = ''pending'' \<rparr>] \<rparr>"

lemmas example_defs = example_db_def example_book_def example_admin_def example_reader_def

section \<open>Auxiliary facts\<close>

text \<open>
  \<^const>\<open>find\<close> returns a row exactly when some row satisfies the condition, and
  the row it returns satisfies it.
\<close>

lemma find_Some_iff_ex: "(find P xs \<noteq> None) = (\<exists>x\<in>set xs. P x)"
  by (induction xs) auto

lemma find_None_iff_all: "(find P xs = None) = (\<forall>x\<in>set xs. \<not> P x)"
  by (induction xs) auto

lemma find_Some_holds: "find P xs = Some x \<Longrightarrow> P x"
  by (induction xs) (auto split: if_splits)

text \<open>
  Rewriting the rows with one key to \<^verbatim>\<open>"approved"\<close> keeps the position of the
  first row with that key, and doing it twice is doing it once.
\<close>

lemma find_map_approved:
  "find (\<lambda>r. r_id r = n) xs = Some found \<Longrightarrow>
   find (\<lambda>r. r_id r = n)
     (map (\<lambda>r. if r_id r = r_id found then r\<lparr> status := ''approved'' \<rparr> else r) xs)
   = Some (found\<lparr> status := ''approved'' \<rparr>)"
proof (induction xs)
  case Nil
  then show ?case by simp
next
  case (Cons x xs)
  show ?case
  proof (cases "r_id x = n")
    case True
    with Cons.prems have "x = found" by simp
    with True show ?thesis by simp
  next
    case False
    with Cons.prems have f: "find (\<lambda>r. r_id r = n) xs = Some found" by simp
    from find_Some_holds [OF f] have "r_id found = n" .
    with False Cons.IH [OF f] show ?thesis by simp
  qed
qed

lemma map_approved_twice:
  "map (\<lambda>r. if r_id r = k then r\<lparr> status := ''approved'' \<rparr> else r)
     (map (\<lambda>r. if r_id r = k then r\<lparr> status := ''approved'' \<rparr> else r) xs)
   = map (\<lambda>r. if r_id r = k then r\<lparr> status := ''approved'' \<rparr> else r) xs"
  by (induction xs) auto

text \<open>
  \<^const>\<open>crud_create_user\<close> fails only on a duplicate email, never with an HTTP
  error, and a failure stores nothing; a row it stores holds the password it
  received.
\<close>

lemma crud_create_user_failure_keeps_store:
  "isl (fst (crud_create_user db user a)) \<Longrightarrow> snd (crud_create_user db user a) = db"
  by (simp add: crud_create_user_def Let_def split: if_splits)

lemma crud_create_user_not_http:
  "fst (crud_create_user db user a) \<noteq> Inl (HTTPException c d)"
  by (simp add: crud_create_user_def Let_def)

lemma crud_create_user_stores_password_as_received:
  "crud_create_user db user a = (Inr created, db') \<Longrightarrow>
   password created = new_password user \<and> users db' = users db @ [created]"
  by (auto simp add: crud_create_user_def Let_def split: if_splits)

text \<open>
  A \<^verbatim>\<open>timedelta\<close> in the claims makes \<^const>\<open>jwt_encode\<close> raise, and
  \<^const>\<open>create_access_token\<close> without a duration puts one under \<^verbatim>\<open>exp\<close>.
\<close>

lemma exp_in_to_encode:
  "(''exp'', v) \<in> set (AList.update ''exp'' v data)"
  by (induction data) auto

lemma time_claim_to_int_timedelta:
  "time_claim_to_int (k, PTimeDelta d) = (k, PTimeDelta d)"
  by (simp add: time_claim_to_int_def)

lemma jwt_encode_timedelta_raises:
  assumes "(k, PTimeDelta d) \<in> set claims"
  shows "jwt_encode claims key alg = Inl TypeError"
proof -
  from assms have "time_claim_to_int (k, PTimeDelta d) \<in> set (map time_claim_to_int claims)"
    by simp
  then have "(k, PTimeDelta d) \<in> set (map time_claim_to_int claims)"
    by (simp only: time_claim_to_int_timedelta)
  then have "\<exists>kv\<in>set (map time_claim_to_int claims). \<not> json_serializable (snd kv)"
    by (rule bexI [rotated]) (simp add: json_serializable_def)
  then have "\<not> list_all (\<lambda>kv. json_serializable (snd kv)) (map time_claim_to_int claims)"
    unfolding list_all_iff by blast
  then show ?thesis
    by (simp add: jwt_encode_def Let_def)
qed

lemma create_access_token_without_delta:
  "create_access_token data None now = Inl TypeError"
  unfolding create_access_token_def to_encode_def Let_def option.case
  by (rule jwt_encode_timedelta_raises [OF exp_in_to_encode])

text \<open>
  \<^const>\<open>str\<close> is injective: two keys with the same decimal form are equal.
\<close>

lemma digit_char_inj:
  assumes "a < 10" "b < 10" "digit_char a = digit_char b"
  shows "a = b"
proof -
  have d: "distinct ''0123456789''" by simp
  have l: "length ''0123456789'' = 10" by simp
  from assms(3) have "''0123456789'' ! a = ''0123456789'' ! b"
    by (simp only: digit_char_def)
  with d assms(1,2) l show ?thesis
    by (simp only: nth_eq_iff_index_eq)
qed

lemma digit_char_not_minus:
  assumes "a < 10"
  shows "digit_char a \<noteq> CHR ''-''"
proof -
  from assms have "''0123456789'' ! a \<in> set ''0123456789''"
    by (intro nth_mem) simp
  then show ?thesis
    unfolding digit_char_def by auto
qed

lemma str_nat_not_empty: "str_nat n \<noteq> []"
  by (subst str_nat.simps) simp

lemma str_nat_hd_not_minus: "hd (str_nat n) \<noteq> CHR ''-''"
proof (induction n rule: str_nat.induct)
  case (1 n)
  show ?case
  proof (cases "n < 10")
    case True
    then show ?thesis
      by (subst str_nat.simps) (simp add: digit_char_not_minus)
  next
    case False
    with "1" have "hd (str_nat (n div 10)) \<noteq> CHR ''-''" by simp
    with False show ?thesis
      by (subst str_nat.simps) (simp add: str_nat_not_empty)
  qed
qed

lemma str_nat_inj: "str_nat m = str_nat n \<Longrightarrow> m = n"
proof (induction m arbitrary: n rule: str_nat.induct)
  case (1 m)
  show ?case
  proof (cases "m < 10")
    case m: True
    show ?thesis
    proof (cases "n < 10")
      case True
      from "1.prems" m True have "digit_char m = digit_char n"
        by (simp add: str_nat.simps [of m] str_nat.simps [of n])
      with m True show ?thesis by (rule digit_char_inj)
    next
      case False
      from "1.prems" m False have "[digit_char m] = str_nat (n div 10) @ [digit_char (n mod 10)]"
        by (simp add: str_nat.simps [of m] str_nat.simps [of n])
      then have "str_nat (n div 10) = []" by simp
      then show ?thesis by (simp add: str_nat_not_empty)
    qed
  next
    case m: False
    show ?thesis
    proof (cases "n < 10")
      case True
      from "1.prems" m True have "str_nat (m div 10) @ [digit_char (m mod 10)] = [digit_char n]"
        by (simp add: str_nat.simps [of m] str_nat.simps [of n])
      then have "str_nat (m div 10) = []" by simp
      then show ?thesis by (simp add: str_nat_not_empty)
    next
      case False
      from "1.prems" m False
      have "str_nat (m div 10) @ [digit_char (m mod 10)]
            = str_nat (n div 10) @ [digit_char (n mod 10)]"
        by (simp add: str_nat.simps [of m] str_nat.simps [of n])
      then have a: "str_nat (m div 10) = str_nat (n div 10)"
        and b: "digit_char (m mod 10) = digit_char (n mod 10)"
        by simp_all
      from "1.IH" [OF m a] have q: "m div 10 = n div 10" .
      have "m mod 10 = n mod 10"
        by (rule digit_char_inj [OF _ _ b]) simp_all
      with q show ?thesis
        by (metis div_mult_mod_eq)
    qed
  qed
qed

lemma str_inj: "str i = str j \<Longrightarrow> i = j"
proof -
  assume e: "str i = str j"
  have neg: "\<And>a b. CHR ''-'' # str_nat a \<noteq> str_nat b"
  proof
    fix a b assume "CHR ''-'' # str_nat a = str_nat b"
    then have "hd (str_nat b) = CHR ''-''" by (metis list.sel(1))
    then show False by (simp add: str_nat_hd_not_minus)
  qed
  show ?thesis
  proof (cases "i < 0")
    case i: True
    show ?thesis
    proof (cases "j < 0")
      case True
      with i e have "str_nat (nat (- i)) = str_nat (nat (- j))" by (simp add: str_def)
      then have "nat (- i) = nat (- j)" by (rule str_nat_inj)
      with i True show ?thesis by simp
    next
      case False
      with i e neg [of "nat (- i)" "nat j"] show ?thesis by (simp add: str_def)
    qed
  next
    case i: False
    show ?thesis
    proof (cases "j < 0")
      case True
      with i e neg [of "nat (- j)" "nat i"] show ?thesis by (simp add: str_def)
    next
      case False
      with i e have "str_nat (nat i) = str_nat (nat j)" by (simp add: str_def)
      then have "nat i = nat j" by (rule str_nat_inj)
      with i False show ?thesis by simp
    qed
  qed
qed

text \<open>
  With an explicit duration other than zero the token is issued, and verifying it
  while the verifier's clock has not passed \<^verbatim>\<open>exp\<close> resolves the row whose key
  was placed under \<^verbatim>\<open>sub\<close>. No caller in the repository passes a duration.
\<close>

lemma find_cong_pred: "(\<And>x. P x = Q x) \<Longrightarrow> find P xs = find Q xs"
  by (induction xs) auto

lemma explicit_delta_round_trip:
  assumes ttl: "ttl \<noteq> 0"
    and fresh: "later \<le> now + ttl"
    and user: "find (\<lambda>u. u_id u = s) (users db) = Some user"
  shows "create_access_token [(''sub'', PStr (str s))] (Some ttl) now
           = Inr (Signed SECRET_KEY ALGORITHM [(''sub'', PStr (str s)), (''exp'', PInt (now + ttl))])
       \<and> get_current_user
           (Signed SECRET_KEY ALGORITHM [(''sub'', PStr (str s)), (''exp'', PInt (now + ttl))])
           db later = Inr user"
proof -
  have enc: "create_access_token [(''sub'', PStr (str s))] (Some ttl) now
           = Inr (Signed SECRET_KEY ALGORITHM [(''sub'', PStr (str s)), (''exp'', PInt (now + ttl))])"
    using ttl
    by (simp add: create_access_token_def to_encode_def jwt_encode_def time_claim_to_int_def
        json_serializable_def Let_def)
  have "find (\<lambda>u. column_eq (u_id u) (PStr (str s))) (users db)
        = find (\<lambda>u. u_id u = s) (users db)"
    by (rule find_cong_pred) (auto simp add: column_eq_def dest: str_inj)
  with user have "find (\<lambda>u. column_eq (u_id u) (PStr (str s))) (users db) = Some user"
    by simp
  with fresh have dec: "get_current_user
           (Signed SECRET_KEY ALGORITHM [(''sub'', PStr (str s)), (''exp'', PInt (now + ttl))])
           db later = Inr user"
    by (simp add: get_current_user_def jwt_decode_def)
  from enc dec show ?thesis by simp
qed

section \<open>Borrow-request admission\<close>

text \<open>
  C1. When the book exists, creating a borrow request fails with the 400 period
  conflict if and only if some stored request for the same book has status
  \<^verbatim>\<open>"approved"\<close>, an end date strictly after the new start and a start date
  strictly before the new end; and it fails in no other way. Only approved rows
  occur in the condition, and a row that touches the new period at an endpoint does
  not satisfy the strict comparisons.
\<close>

theorem borrow_request_period_conflict:
  assumes "find (\<lambda>b. b_id b = req_book_id request) (books db) = Some book"
  shows "((fst (borrow_request request current_user db)
            = Inl (HTTPException 400 ''This book is already borrowed during the requested period''))
          \<longleftrightarrow> (\<exists>r\<in>set (borrow_requests db).
                 book_id r = req_book_id request \<and> status r = ''approved''
                 \<and> end_date r > req_start_date request
                 \<and> start_date r < req_end_date request))
       \<and> (isl (fst (borrow_request request current_user db))
          \<longleftrightarrow> (\<exists>r\<in>set (borrow_requests db).
                 book_id r = req_book_id request \<and> status r = ''approved''
                 \<and> end_date r > req_start_date request
                 \<and> start_date r < req_end_date request))"
proof -
  let ?P = "\<lambda>r. book_id r = req_book_id request \<and> status r = ''approved''
                 \<and> end_date r > req_start_date request
                 \<and> start_date r < req_end_date request"
  show ?thesis
  proof (cases "find ?P (borrow_requests db)")
    case None
    then have "\<not> (\<exists>r\<in>set (borrow_requests db). ?P r)"
      by (simp add: find_None_iff_all)
    with None assms show ?thesis
      by (simp add: borrow_request_def Let_def)
  next
    case (Some r)
    then have "\<exists>r\<in>set (borrow_requests db). ?P r"
      using find_Some_iff_ex [of ?P "borrow_requests db"] by simp
    with Some assms show ?thesis
      by (simp add: borrow_request_def)
  qed
qed

text \<open>
  The example of the specification: with the period 10 to 20 approved, 15 to 25 is
  refused, 20 to 25 and 1 to 10 are admitted; 30 to 40, which a pending request
  already covers, is admitted as well.
\<close>

theorem borrow_request_period_conflict_witness:
  "find (\<lambda>b. b_id b = 1) (books example_db) = Some example_book
   \<and> fst (borrow_request \<lparr> req_book_id = 1, req_start_date = 15, req_end_date = 25 \<rparr>
            example_reader example_db)
       = Inl (HTTPException 400 ''This book is already borrowed during the requested period'')
   \<and> \<not> isl (fst (borrow_request \<lparr> req_book_id = 1, req_start_date = 20, req_end_date = 25 \<rparr>
            example_reader example_db))
   \<and> \<not> isl (fst (borrow_request \<lparr> req_book_id = 1, req_start_date = 1, req_end_date = 10 \<rparr>
            example_reader example_db))
   \<and> \<not> isl (fst (borrow_request \<lparr> req_book_id = 1, req_start_date = 30, req_end_date = 40 \<rparr>
            example_reader example_db))"
proof -
  have book: "find (\<lambda>b. b_id b = 1) (books example_db) = Some example_book"
    by (simp add: example_defs)
  have rows: "set (borrow_requests example_db) =
     {\<lparr> r_id = 1, user_id = 2, book_id = 1, start_date = 10, end_date = 20,
            status = ''approved'' \<rparr>,
          \<lparr> r_id = 2, user_id = 2, book_id = 1, start_date = 30, end_date = 40,
            status = ''pending'' \<rparr>,
          \<lparr> r_id = 3, user_id = 2, book_id = 1, start_date = 15, end_date = 25,
            status = ''pending'' \<rparr>}"
    by (simp add: example_defs)
  have a: "fst (borrow_request \<lparr> req_book_id = 1, req_start_date = 15, req_end_date = 25 \<rparr>
            example_reader example_db)
       = Inl (HTTPException 400 ''This book is already borrowed during the requested period'')"
    using borrow_request_period_conflict
      [of "\<lparr> req_book_id = 1, req_start_date = 15, req_end_date = 25 \<rparr>" example_db
          example_book example_reader] book rows
    by simp
  have b: "\<not> isl (fst (borrow_request \<lparr> req_book_id = 1, req_start_date = 20, req_end_date = 25 \<rparr>
            example_reader example_db))"
    using borrow_request_period_conflict
      [of "\<lparr> req_book_id = 1, req_start_date = 20, req_end_date = 25 \<rparr>" example_db
          example_book example_reader] book rows
    by simp
  have c: "\<not> isl (fst (borrow_request \<lparr> req_book_id = 1, req_start_date = 1, req_end_date = 10 \<rparr>
            example_reader example_db))"
    using borrow_request_period_conflict
      [of "\<lparr> req_book_id = 1, req_start_date = 1, req_end_date = 10 \<rparr>" example_db
          example_book example_reader] book rows
    by simp
  have d: "\<not> isl (fst (borrow_request \<lparr> req_book_id = 1, req_start_date = 30, req_end_date = 40 \<rparr>
            example_reader example_db))"
    using borrow_request_period_conflict
      [of "\<lparr> req_book_id = 1, req_start_date = 30, req_end_date = 40 \<rparr>" example_db
          example_book example_reader] book rows
    by simp
  from book a b c d show ?thesis by simp
qed

text \<open>
  C8. Creating a borrow request fails with the 404 \<^verbatim>\<open>Book not found\<close> if and
  only if no book has the given key; then that is the outcome whatever the stored
  requests are (the check comes before the overlap check) and the store is
  unchanged. Every successful creation returns, and appends to the store, a row with
  status \<^verbatim>\<open>"pending"\<close>, the key of the caller and exactly the given book key,
  start date and end date.
\<close>

theorem borrow_request_book_not_found:
  "((fst (borrow_request request current_user db) = Inl (HTTPException 404 ''Book not found''))
      \<longleftrightarrow> (\<forall>b\<in>set (books db). b_id b \<noteq> req_book_id request))
   \<and> ((\<forall>b\<in>set (books db). b_id b \<noteq> req_book_id request)
        \<longrightarrow> borrow_request request current_user db
              = (Inl (HTTPException 404 ''Book not found''), db))
   \<and> (\<forall>new db'. borrow_request request current_user db = (Inr new, db')
        \<longrightarrow> new = \<lparr> r_id = fresh_id (map r_id (borrow_requests db)),
                     user_id = u_id current_user,
                     book_id = req_book_id request,
                     start_date = req_start_date request,
                     end_date = req_end_date request,
                     status = ''pending'' \<rparr>
            \<and> db' = db\<lparr> borrow_requests := borrow_requests db @ [new] \<rparr>)"
proof (cases "find (\<lambda>b. b_id b = req_book_id request) (books db)")
  case None
  then have "\<forall>b\<in>set (books db). b_id b \<noteq> req_book_id request"
    by (simp add: find_None_iff_all)
  with None show ?thesis
    by (simp add: borrow_request_def)
next
  case (Some book)
  then have "\<not> (\<forall>b\<in>set (books db). b_id b \<noteq> req_book_id request)"
    using find_Some_iff_ex [of "\<lambda>b. b_id b = req_book_id request" "books db"] by simp
  with Some show ?thesis
    by (auto simp add: borrow_request_def Let_def split: option.splits)
qed

theorem borrow_request_book_not_found_witness:
  "fst (borrow_request \<lparr> req_book_id = 7, req_start_date = 15, req_end_date = 25 \<rparr>
          example_reader example_db) = Inl (HTTPException 404 ''Book not found'')
   \<and> borrow_request \<lparr> req_book_id = 1, req_start_date = 20, req_end_date = 25 \<rparr>
          example_reader example_db
     = (Inr \<lparr> r_id = 4, user_id = 2, book_id = 1, start_date = 20, end_date = 25,
              status = ''pending'' \<rparr>,
        example_db\<lparr> borrow_requests := borrow_requests example_db @
          [\<lparr> r_id = 4, user_id = 2, book_id = 1, start_date = 20, end_date = 25,
             status = ''pending'' \<rparr>] \<rparr>)"
proof -
  have "\<forall>b\<in>set (books example_db). b_id b \<noteq> 7"
    by (simp add: example_defs)
  then have a: "fst (borrow_request \<lparr> req_book_id = 7, req_start_date = 15, req_end_date = 25 \<rparr>
          example_reader example_db) = Inl (HTTPException 404 ''Book not found'')"
    using borrow_request_book_not_found
      [of "\<lparr> req_book_id = 7, req_start_date = 15, req_end_date = 25 \<rparr>" example_reader example_db]
    by simp
  have run: "borrow_request \<lparr> req_book_id = 1, req_start_date = 20, req_end_date = 25 \<rparr>
          example_reader example_db
     = (Inr \<lparr> r_id = 4, user_id = 2, book_id = 1, start_date = 20, end_date = 25,
              status = ''pending'' \<rparr>,
        example_db\<lparr> borrow_requests := borrow_requests example_db @
          [\<lparr> r_id = 4, user_id = 2, book_id = 1, start_date = 20, end_date = 25,
             status = ''pending'' \<rparr>] \<rparr>)"
    by (simp add: borrow_request_def example_defs fresh_id_def Let_def)
  from a run show ?thesis by simp
qed

text \<open>
  C9. The order of the two dates is not validated: when the book exists, the end
  date is not after the start date, and no approved request of the book satisfies
  the overlap test, the request is stored and returned with status
  \<^verbatim>\<open>"pending"\<close>.
\<close>

theorem borrow_request_inverted_range_admitted:
  assumes book: "find (\<lambda>b. b_id b = req_book_id request) (books db) = Some book"
    and inverted: "req_end_date request \<le> req_start_date request"
    and free: "\<forall>r\<in>set (borrow_requests db).
                 \<not> (book_id r = req_book_id request \<and> status r = ''approved''
                    \<and> end_date r > req_start_date request
                    \<and> start_date r < req_end_date request)"
  shows "borrow_request request current_user db
         = (Inr \<lparr> r_id = fresh_id (map r_id (borrow_requests db)),
                  user_id = u_id current_user,
                  book_id = req_book_id request,
                  start_date = req_start_date request,
                  end_date = req_end_date request,
                  status = ''pending'' \<rparr>,
            db\<lparr> borrow_requests := borrow_requests db @
                 [\<lparr> r_id = fresh_id (map r_id (borrow_requests db)),
                    user_id = u_id current_user,
                    book_id = req_book_id request,
                    start_date = req_start_date request,
                    end_date = req_end_date request,
                    status = ''pending'' \<rparr>] \<rparr>)"
proof -
  from free have "find (\<lambda>r. book_id r = req_book_id request \<and> status r = ''approved''
                    \<and> end_date r > req_start_date request
                    \<and> start_date r < req_end_date request) (borrow_requests db) = None"
    by (simp add: find_None_iff_all)
  with book show ?thesis
    by (simp add: borrow_request_def Let_def)
qed

theorem borrow_request_inverted_range_admitted_witness:
  "borrow_request \<lparr> req_book_id = 1, req_start_date = 25, req_end_date = 22 \<rparr>
     example_reader example_db
   = (Inr \<lparr> r_id = 4, user_id = 2, book_id = 1, start_date = 25, end_date = 22,
            status = ''pending'' \<rparr>,
      example_db\<lparr> borrow_requests := borrow_requests example_db @
        [\<lparr> r_id = 4, user_id = 2, book_id = 1, start_date = 25, end_date = 22,
           status = ''pending'' \<rparr>] \<rparr>)"
proof -
  have book: "find (\<lambda>b. b_id b = req_book_id \<lparr> req_book_id = 1, req_start_date = 25, req_end_date = 22 \<rparr>)
     (books example_db) = Some example_book"
    by (simp add: example_defs)
  have inverted: "req_end_date \<lparr> req_book_id = 1, req_start_date = 25, req_end_date = 22 \<rparr>
      \<le> req_start_date \<lparr> req_book_id = 1, req_start_date = 25, req_end_date = 22 \<rparr>"
    by simp
  have free: "\<forall>r\<in>set (borrow_requests example_db).
                 \<not> (book_id r = req_book_id \<lparr> req_book_id = 1, req_start_date = 25, req_end_date = 22 \<rparr>
                    \<and> status r = ''approved''
                    \<and> end_date r > req_start_date \<lparr> req_book_id = 1, req_start_date = 25, req_end_date = 22 \<rparr>
                    \<and> start_date r < req_end_date \<lparr> req_book_id = 1, req_start_date = 25, req_end_date = 22 \<rparr>)"
    by (simp add: example_defs)
  show ?thesis
    using borrow_request_inverted_range_admitted [OF book inverted free, of example_reader]
    by (simp add: example_defs fresh_id_def)
qed

section \<open>Approval\<close>

text \<open>
  C3. For an administrator and an existing request, \<^const>\<open>approve_request\<close>
  returns the request with status \<^verbatim>\<open>"approved"\<close> and stores that status,
  whatever the other rows of the store are (no overlap test is made); approving the
  same request again, by any administrator, succeeds with the same result and
  leaves the same store.
\<close>

theorem approve_request_unconditional_idempotent:
  assumes admin: "is_admin current_user"
    and admin': "is_admin other_admin"
    and found: "find (\<lambda>r. r_id r = request_id) (borrow_requests db) = Some found"
  shows "approve_request request_id db current_user
         = (Inr (found\<lparr> status := ''approved'' \<rparr>),
            db\<lparr> borrow_requests :=
                  map (\<lambda>r. if r_id r = request_id then r\<lparr> status := ''approved'' \<rparr> else r)
                      (borrow_requests db) \<rparr>)
       \<and> approve_request request_id (snd (approve_request request_id db current_user)) other_admin
         = approve_request request_id db current_user"
proof -
  from find_Some_holds [OF found] have k: "r_id found = request_id" .
  have first: "approve_request request_id db current_user
         = (Inr (found\<lparr> status := ''approved'' \<rparr>),
            db\<lparr> borrow_requests :=
                  map (\<lambda>r. if r_id r = request_id then r\<lparr> status := ''approved'' \<rparr> else r)
                      (borrow_requests db) \<rparr>)"
    using admin found k by (simp add: approve_request_def)
  have again: "find (\<lambda>r. r_id r = request_id)
      (map (\<lambda>r. if r_id r = request_id then r\<lparr> status := ''approved'' \<rparr> else r)
           (borrow_requests db))
     = Some (found\<lparr> status := ''approved'' \<rparr>)"
    using find_map_approved [OF found] k by simp
  have second: "approve_request request_id
      (db\<lparr> borrow_requests :=
             map (\<lambda>r. if r_id r = request_id then r\<lparr> status := ''approved'' \<rparr> else r)
                 (borrow_requests db) \<rparr>) other_admin
     = (Inr (found\<lparr> status := ''approved'' \<rparr>),
            db\<lparr> borrow_requests :=
                  map (\<lambda>r. if r_id r = request_id then r\<lparr> status := ''approved'' \<rparr> else r)
                      (borrow_requests db) \<rparr>)"
    using admin' again k by (simp add: approve_request_def map_approved_twice)
  from first second show ?thesis by simp
qed

text \<open>
  In the example store the pending request over 15 to 25 is approved although the
  period 10 to 20 of the same book is approved already.
\<close>

theorem approve_request_unconditional_idempotent_witness:
  "approve_request 3 example_db example_admin
   = (Inr \<lparr> r_id = 3, user_id = 2, book_id = 1, start_date = 15, end_date = 25,
            status = ''approved'' \<rparr>,
      example_db\<lparr> borrow_requests :=
         [\<lparr> r_id = 1, user_id = 2, book_id = 1, start_date = 10, end_date = 20,
            status = ''approved'' \<rparr>,
          \<lparr> r_id = 2, user_id = 2, book_id = 1, start_date = 30, end_date = 40,
            status = ''pending'' \<rparr>,
          \<lparr> r_id = 3, user_id = 2, book_id = 1, start_date = 15, end_date = 25,
            status = ''approved'' \<rparr>] \<rparr>)
   \<and> approve_request 3 (snd (approve_request 3 example_db example_admin)) example_admin
     = approve_request 3 example_db example_admin"
proof -
  have admin: "is_admin example_admin"
    by (simp add: example_defs)
  have found: "find (\<lambda>r. r_id r = 3) (borrow_requests example_db)
      = Some \<lparr> r_id = 3, user_id = 2, book_id = 1, start_date = 15, end_date = 25,
            status = ''pending'' \<rparr>"
    by (simp add: example_defs)
  have rows: "map (\<lambda>r. if r_id r = 3 then r\<lparr> status := ''approved'' \<rparr> else r)
                 (borrow_requests example_db)
      = [\<lparr> r_id = 1, user_id = 2, book_id = 1, start_date = 10, end_date = 20,
            status = ''approved'' \<rparr>,
          \<lparr> r_id = 2, user_id = 2, book_id = 1, start_date = 30, end_date = 40,
            status = ''pending'' \<rparr>,
          \<lparr> r_id = 3, user_id = 2, book_id = 1, start_date = 15, end_date = 25,
            status = ''approved'' \<rparr>]"
    by (simp add: example_defs)
  note inst = approve_request_unconditional_idempotent [OF admin admin found]
  from conjunct1 [OF inst] rows
  have first: "approve_request 3 example_db example_admin
   = (Inr \<lparr> r_id = 3, user_id = 2, book_id = 1, start_date = 15, end_date = 25,
            status = ''approved'' \<rparr>,
      example_db\<lparr> borrow_requests :=
         [\<lparr> r_id = 1, user_id = 2, book_id = 1, start_date = 10, end_date = 20,
            status = ''approved'' \<rparr>,
          \<lparr> r_id = 2, user_id = 2, book_id = 1, start_date = 30, end_date = 40,
            status = ''pending'' \<rparr>,
          \<lparr> r_id = 3, user_id = 2, book_id = 1, start_date = 15, end_date = 25,
            status = ''approved'' \<rparr>] \<rparr>)"
    by simp
  show ?thesis
    by (rule conjI) (fact first, fact conjunct2 [OF inst])
qed

section \<open>Administrators and authorization\<close>

text \<open>
  C6. \<^const>\<open>create_admin_user\<close> fails with the 400
  \<^verbatim>\<open>An admin already exists.\<close> if and only if some stored user has
  \<^verbatim>\<open>is_admin\<close> true, whatever the request body is; then, and on every other
  failure, the store is unchanged.
\<close>

theorem create_admin_user_admin_already_exists:
  "((fst (create_admin_user user db) = Inl (HTTPException 400 ''An admin already exists.''))
      \<longleftrightarrow> (\<exists>u\<in>set (users db). is_admin u))
   \<and> ((\<exists>u\<in>set (users db). is_admin u)
        \<longrightarrow> create_admin_user user db
              = (Inl (HTTPException 400 ''An admin already exists.''), db))
   \<and> (isl (fst (create_admin_user user db)) \<longrightarrow> snd (create_admin_user user db) = db)"
proof (cases "find (\<lambda>u. is_admin u = True) (users db)")
  case None
  then have "\<not> (\<exists>u\<in>set (users db). is_admin u)"
    by (simp add: find_None_iff_all)
  with None show ?thesis
    by (simp add: create_admin_user_def crud_create_user_failure_keeps_store
        crud_create_user_not_http)
next
  case (Some a)
  then have "\<exists>u\<in>set (users db). is_admin u"
    using find_Some_iff_ex [of "\<lambda>u. is_admin u = True" "users db"] by simp
  with Some show ?thesis
    by (simp add: create_admin_user_def)
qed

theorem create_admin_user_admin_already_exists_witness:
  "create_admin_user \<lparr> new_email = ''second@example.com'', new_password = ''pw'',
                        new_is_admin = True \<rparr> example_db
     = (Inl (HTTPException 400 ''An admin already exists.''), example_db)
   \<and> fst (create_admin_user \<lparr> new_email = ''first@example.com'', new_password = ''pw'',
                        new_is_admin = False \<rparr> empty_db)
     \<noteq> Inl (HTTPException 400 ''An admin already exists.'')"
proof -
  have yes: "\<exists>u\<in>set (users example_db). is_admin u"
    by (simp add: example_defs)
  have no: "\<not> (\<exists>u\<in>set (users empty_db). is_admin u)"
    by (simp add: empty_db_def)
  from yes no show ?thesis
    using create_admin_user_admin_already_exists
      [of "\<lparr> new_email = ''second@example.com'', new_password = ''pw'', new_is_admin = True \<rparr>"
          example_db]
      create_admin_user_admin_already_exists
      [of "\<lparr> new_email = ''first@example.com'', new_password = ''pw'', new_is_admin = False \<rparr>"
          empty_db]
    by simp
qed

text \<open>
  C7. For a principal whose \<^verbatim>\<open>is_admin\<close> is false, each of
  \<^const>\<open>add_book\<close>, \<^const>\<open>approve_request\<close>, \<^const>\<open>create_user\<close>,
  \<^const>\<open>view_borrow_requests\<close> and \<^const>\<open>view_user_borrow_history\<close> fails with
  the 403 \<^verbatim>\<open>Not authorized\<close> and leaves the store as it was.
\<close>

theorem non_admin_forbidden:
  assumes "\<not> is_admin current_user"
  shows "add_book book db current_user = (Inl (HTTPException 403 ''Not authorized''), db)
       \<and> approve_request request_id db current_user
           = (Inl (HTTPException 403 ''Not authorized''), db)
       \<and> create_user user db current_user = (Inl (HTTPException 403 ''Not authorized''), db)
       \<and> view_borrow_requests db current_user
           = (Inl (HTTPException 403 ''Not authorized''), db)
       \<and> view_user_borrow_history uid db current_user
           = (Inl (HTTPException 403 ''Not authorized''), db)"
  using assms
  by (simp add: add_book_def approve_request_def create_user_def view_borrow_requests_def
      view_user_borrow_history_def)

theorem non_admin_forbidden_witness:
  "\<not> is_admin example_reader
   \<and> add_book \<lparr> new_title = ''T2'', new_author = ''A2'', new_copies = 3 \<rparr> example_db example_reader
       = (Inl (HTTPException 403 ''Not authorized''), example_db)
   \<and> approve_request 2 example_db example_reader
       = (Inl (HTTPException 403 ''Not authorized''), example_db)
   \<and> create_user \<lparr> new_email = ''x@example.com'', new_password = ''pw'', new_is_admin = False \<rparr>
        example_db example_reader
       = (Inl (HTTPException 403 ''Not authorized''), example_db)
   \<and> view_borrow_requests example_db example_reader
       = (Inl (HTTPException 403 ''Not authorized''), example_db)
   \<and> view_user_borrow_history 2 example_db example_reader
       = (Inl (HTTPException 403 ''Not authorized''), example_db)"
proof -
  have h: "\<not> is_admin example_reader"
    by (simp add: example_defs)
  show ?thesis
    using h non_admin_forbidden [OF h,
        of "\<lparr> new_title = ''T2'', new_author = ''A2'', new_copies = 3 \<rparr>" example_db 2
           "\<lparr> new_email = ''x@example.com'', new_password = ''pw'', new_is_admin = False \<rparr>" 2]
    by simp
qed

text \<open>
  C10. For an administrator as principal, \<^const>\<open>create_user\<close> stores the new
  user with \<^verbatim>\<open>is_admin\<close> true whatever the \<^verbatim>\<open>is_admin\<close> of the request body
  is: when the email is free the call succeeds with such a row, and every row it
  returns is an administrator and is the one appended to the store.
\<close>

theorem create_user_always_admin:
  assumes "is_admin current_user"
  shows "(find (\<lambda>u. email u = new_email user) (users db) = None
          \<longrightarrow> create_user user db current_user
              = (Inr \<lparr> u_id = fresh_id (map u_id (users db)), email = new_email user,
                       password = new_password user, is_admin = True \<rparr>,
                 db\<lparr> users := users db @
                   [\<lparr> u_id = fresh_id (map u_id (users db)), email = new_email user,
                      password = new_password user, is_admin = True \<rparr>] \<rparr>))
       \<and> (\<forall>created db'. create_user user db current_user = (Inr created, db')
            \<longrightarrow> is_admin created \<and> users db' = users db @ [created])"
  using assms
  by (auto simp add: create_user_def crud_create_user_def Let_def split: if_splits)

theorem create_user_always_admin_witness:
  "is_admin example_admin
   \<and> create_user \<lparr> new_email = ''x@example.com'', new_password = ''pw'', new_is_admin = False \<rparr>
        example_db example_admin
     = (Inr \<lparr> u_id = 3, email = ''x@example.com'', password = ''pw'', is_admin = True \<rparr>,
        example_db\<lparr> users := users example_db @
          [\<lparr> u_id = 3, email = ''x@example.com'', password = ''pw'', is_admin = True \<rparr>] \<rparr>)"
proof -
  have h: "is_admin example_admin"
    by (simp add: example_defs)
  have free: "find (\<lambda>u. email u = ''x@example.com'') (users example_db) = None"
    by (simp add: example_defs)
  show ?thesis
    using h free create_user_always_admin [OF h,
        of "\<lparr> new_email = ''x@example.com'', new_password = ''pw'', new_is_admin = False \<rparr>"
           example_db]
    by (simp add: example_defs fresh_id_def)
qed

section \<open>Passwords and tokens\<close>

text \<open>
  C2. The specification has the stored password be a salted hash of the plaintext,
  not the plaintext. The code stores the plaintext: both creation operations return and
  store a row whose \<^verbatim>\<open>password\<close> is the string of the request body;
  \<^const>\<open>get_password_hash\<close> is called nowhere.
\<close>

theorem create_user_stores_plaintext_password:
  "create_admin_user \<lparr> new_email = ''admin@example.com'', new_password = ''secret'',
                        new_is_admin = True \<rparr> empty_db
   = (Inr \<lparr> u_id = 1, email = ''admin@example.com'', password = ''secret'', is_admin = True \<rparr>,
      \<lparr> users = [\<lparr> u_id = 1, email = ''admin@example.com'', password = ''secret'',
                   is_admin = True \<rparr>],
        books = [], borrow_requests = [] \<rparr>)
   \<and> create_user \<lparr> new_email = ''x@example.com'', new_password = ''pw'', new_is_admin = False \<rparr>
        example_db example_admin
     = (Inr \<lparr> u_id = 3, email = ''x@example.com'', password = ''pw'', is_admin = True \<rparr>,
        example_db\<lparr> users := users example_db @
          [\<lparr> u_id = 3, email = ''x@example.com'', password = ''pw'', is_admin = True \<rparr>] \<rparr>)"
  by (simp add: create_admin_user_def create_user_def crud_create_user_def empty_db_def
      fresh_id_def Let_def example_defs)

text \<open>
  C4. The specification has a token issued without an explicit duration carry an
  \<^verbatim>\<open>exp\<close> equal to the time of issue plus 15 minutes. In the code the value
  under \<^verbatim>\<open>exp\<close> is then the duration of 15 minutes itself, not a time, and
  encoding raises \<^verbatim>\<open>TypeError\<close>: no token is issued.
\<close>

theorem create_access_token_default_expiry:
  "map_of (to_encode data None now) ''exp'' = Some (PTimeDelta (minutes 15))
   \<and> map_of (to_encode data None now) ''exp'' \<noteq> Some (PDateTime (now + minutes 15))
   \<and> create_access_token data None now = Inl TypeError"
  by (simp add: to_encode_def update_conv' create_access_token_without_delta)

text \<open>
  C5. The specification has the principal resolved from a fresh login token be the
  user who logged in. \<^const>\<open>login\<close> never returns a token: it calls
  \<^const>\<open>create_access_token\<close> without a duration, so every call ends in an
  error.
\<close>

theorem login_issues_no_token:
  "login pwd_context email_arg password_arg db now \<noteq> Inr response"
  by (simp add: login_def Let_def create_access_token_without_delta
      split: sum.splits option.splits)

end
